theory Spec2Isabelle
  imports Complex_Main "HOL-Library.AList"
begin

section \<open>Python values met by modules/interrogate/moondream3.py\<close>

text \<open>
  A Python float is a finite value or one of the three specials. Finite values are
  carried as the real number they denote; rounding of an \<^verbatim>\<open>int\<close> to the nearest
  double is not modelled (it is monotone and fixes 0.0 and 1.0, so it commutes with the
  clamping below).
\<close>

datatype pyfloat = Finite real | PosInf | NegInf | NaN

text \<open>
  The raw answers of the external model are untyped Python data. \<open>PObj\<close> stands for
  any other object (an encoded image, a generator); it supports none of the container
  or number protocols. A \<open>PDict\<close> has string keys; the first binding of a key is the
  one the dict holds.
\<close>

datatype pyval =
    PNone
  | PBool bool
  | PInt int
  | PFloat pyfloat
  | PStr string
  | PList "pyval list"
  | PTuple "pyval list"
  | PDict "(string \<times> pyval) list"
  | PObj nat

datatype pyerror =
    TypeError
  | ValueError
  | OverflowError
  | KeyError
  | AttributeError
  | IndexError
  | ExternalError string

subsection \<open>Float comparison, \<^verbatim>\<open>min\<close> and \<^verbatim>\<open>max\<close>\<close>

text \<open>IEEE order: every comparison with NaN is false.\<close>

fun float_lt :: "pyfloat \<Rightarrow> pyfloat \<Rightarrow> bool" where
  "float_lt NaN _ = False"
| "float_lt _ NaN = False"
| "float_lt (Finite a) (Finite b) = (a < b)"
| "float_lt (Finite a) PosInf = True"
| "float_lt (Finite a) NegInf = False"
| "float_lt PosInf _ = False"
| "float_lt NegInf NegInf = False"
| "float_lt NegInf _ = True"

text \<open>
  \<^verbatim>\<open>min(a, b)\<close> keeps \<open>a\<close> unless \<^verbatim>\<open>b < a\<close>; \<^verbatim>\<open>max(a, b)\<close> keeps \<open>a\<close> unless
  \<^verbatim>\<open>b > a\<close>.
\<close>

definition py_min :: "pyfloat \<Rightarrow> pyfloat \<Rightarrow> pyfloat" where
  "py_min a b = (if float_lt b a then b else a)"

definition py_max :: "pyfloat \<Rightarrow> pyfloat \<Rightarrow> pyfloat" where
  "py_max a b = (if float_lt a b then b else a)"

text \<open>\<^verbatim>\<open>max(0.0, min(1.0, v))\<close>, lines 238, 239, 247, 248 and 304 to 307.\<close>

definition clamp01 :: "pyfloat \<Rightarrow> pyfloat" where
  "clamp01 v = py_max (Finite 0) (py_min (Finite 1) v)"

definition in_unit :: "pyfloat \<Rightarrow> bool" where
  "in_unit f = (case f of Finite r \<Rightarrow> 0 \<le> r \<and> r \<le> 1 | _ \<Rightarrow> False)"

subsection \<open>Builtins on raw values\<close>

text \<open>
  What the interpreter and the collaborators supply: \<open>float_of_str\<close> is \<^verbatim>\<open>float()\<close> on
  a \<^verbatim>\<open>str\<close> (\<open>None\<close> is ValueError), \<open>str_exc\<close> is \<^verbatim>\<open>str(e)\<close>, \<open>format_f n\<close> is the
  format \<^verbatim>\<open>.nf\<close>. \<open>model_call\<close> answers one step of the external model, given the
  steps made before: either the body of load_model (lines 52 to 69) or one capability
  of the loaded model. The three options are the fields of \<^verbatim>\<open>shared.opts\<close> read by
  get_settings; numbers in settings are carried as reals.
\<close>

datatype image_input = RawImage nat | Encoded pyval

datatype call =
    LoadModel "string option"
  | EncodeImage nat
  | Query image_input string bool "(string \<times> real) list option"
  | Caption nat string bool "(string \<times> real) list option"
  | Point nat string
  | Detect nat string "(string \<times> real) list option"

record env =
  float_of_str :: "string \<Rightarrow> pyfloat option"
  str_exc :: "pyerror \<Rightarrow> string"
  format_f :: "nat \<Rightarrow> pyfloat \<Rightarrow> string"
  model_call :: "call list \<Rightarrow> call \<Rightarrow> pyerror + pyval"
  interrogate_vlm_max_length :: real
  interrogate_vlm_temperature :: real
  interrogate_vlm_top_p :: real

fun py_truthy :: "pyval \<Rightarrow> bool" where
  "py_truthy PNone = False"
| "py_truthy (PBool b) = b"
| "py_truthy (PInt n) = (n \<noteq> 0)"
| "py_truthy (PFloat f) = (f \<noteq> Finite 0)"
| "py_truthy (PStr s) = (s \<noteq> [])"
| "py_truthy (PList xs) = (xs \<noteq> [])"
| "py_truthy (PTuple xs) = (xs \<noteq> [])"
| "py_truthy (PDict kvs) = (kvs \<noteq> [])"
| "py_truthy (PObj _) = True"

fun py_len :: "pyval \<Rightarrow> pyerror + nat" where
  "py_len (PStr s) = Inr (length s)"
| "py_len (PList xs) = Inr (length xs)"
| "py_len (PTuple xs) = Inr (length xs)"
| "py_len (PDict kvs) = Inr (length kvs)"
| "py_len _ = Inl TypeError"

text \<open>Iteration: a dict yields its keys, a string its characters.\<close>

fun py_iter :: "pyval \<Rightarrow> pyerror + pyval list" where
  "py_iter (PList xs) = Inr xs"
| "py_iter (PTuple xs) = Inr xs"
| "py_iter (PDict kvs) = Inr (map (\<lambda>kv. PStr (fst kv)) kvs)"
| "py_iter (PStr s) = Inr (map (\<lambda>c. PStr [c]) s)"
| "py_iter _ = Inl TypeError"

text \<open>\<^verbatim>\<open>a in b\<close> on strings: \<open>a\<close> occurs in \<open>b\<close> as a contiguous block.\<close>

fun str_contains :: "string \<Rightarrow> string \<Rightarrow> bool" where
  "str_contains a [] = (a = [])"
| "str_contains a (c # cs) = (take (length a) (c # cs) = a \<or> str_contains a cs)"

text \<open>\<^verbatim>\<open>key in v\<close> for a string \<open>key\<close>.\<close>

fun py_contains :: "string \<Rightarrow> pyval \<Rightarrow> pyerror + bool" where
  "py_contains k (PDict kvs) = Inr (map_of kvs k \<noteq> None)"
| "py_contains k (PList xs) = Inr (PStr k \<in> set xs)"
| "py_contains k (PTuple xs) = Inr (PStr k \<in> set xs)"
| "py_contains k (PStr s) = Inr (str_contains k s)"
| "py_contains k _ = Inl TypeError"

text \<open>\<^verbatim>\<open>v[key]\<close> for a string \<open>key\<close>: only a dict can be indexed by a string.\<close>

fun py_getitem :: "pyval \<Rightarrow> string \<Rightarrow> pyerror + pyval" where
  "py_getitem (PDict kvs) k = (case map_of kvs k of None \<Rightarrow> Inl KeyError | Some v \<Rightarrow> Inr v)"
| "py_getitem _ k = Inl TypeError"

text \<open>
  \<^verbatim>\<open>float(v)\<close>. An \<^verbatim>\<open>int\<close> that rounds to \<open>2 ^ 1024\<close> or beyond raises OverflowError.
\<close>

definition py_float :: "env \<Rightarrow> pyval \<Rightarrow> pyerror + pyfloat" where
  "py_float env v =
     (case v of
        PFloat f \<Rightarrow> Inr f
      | PInt n \<Rightarrow> (if \<bar>n\<bar> \<ge> 2 ^ 1024 - 2 ^ 970 then Inl OverflowError else Inr (Finite (of_int n)))
      | PBool b \<Rightarrow> Inr (Finite (if b then 1 else 0))
      | PStr s \<Rightarrow> (case float_of_str env s of None \<Rightarrow> Inl ValueError | Some f \<Rightarrow> Inr f)
      | _ \<Rightarrow> Inl TypeError)"

section \<open>Process state\<close>

text \<open>
  \<open>loaded\<close> and \<open>image_cache\<close> are the module's globals. \<open>calls\<close> records the steps of the
  external model in order, \<open>displayed\<close> what was handed to \<^verbatim>\<open>errors.display\<close>.
\<close>

record state =
  loaded :: "string option"
  image_cache :: "(string \<times> pyval) list"
  calls :: "call list"
  displayed :: "(pyerror \<times> string) list"

definition invoke :: "env \<Rightarrow> call \<Rightarrow> state \<Rightarrow> (pyerror + pyval) \<times> state" where
  "invoke env c st = (model_call env (calls st) c, st\<lparr>calls := calls st @ [c]\<rparr>)"

definition errors_display :: "pyerror \<Rightarrow> string \<Rightarrow> state \<Rightarrow> state" where
  "errors_display e label st = st\<lparr>displayed := displayed st @ [(e, label)]\<rparr>"

text \<open>load_model: on success the global \<open>loaded\<close> is the repository asked for.\<close>

definition load_model :: "env \<Rightarrow> string option \<Rightarrow> state \<Rightarrow> (pyerror + unit) \<times> state" where
  "load_model env repo st =
     (case invoke env (LoadModel repo) st of
        (Inl e, st') \<Rightarrow> (Inl e, st')
      | (Inr m, st') \<Rightarrow> (Inr (), st'\<lparr>loaded := repo\<rparr>))"

section \<open>point (lines 205 to 253)\<close>

text \<open>The loop of lines 236 to 240 over the entries, with its accumulator.\<close>

fun point_loop :: "env \<Rightarrow> pyval list \<Rightarrow> (pyfloat \<times> pyfloat) list \<Rightarrow> pyerror + (pyfloat \<times> pyfloat) list" where
  "point_loop env [] coordinates = Inr coordinates"
| "point_loop env (point_data # rest) coordinates =
     (case py_contains ''x'' point_data of
        Inl e \<Rightarrow> Inl e
      | Inr has_x \<Rightarrow>
          if \<not> has_x then point_loop env rest coordinates
          else (case py_contains ''y'' point_data of
              Inl e \<Rightarrow> Inl e
            | Inr has_y \<Rightarrow>
                if \<not> has_y then point_loop env rest coordinates
                else (case py_getitem point_data ''x'' of
                    Inl e \<Rightarrow> Inl e
                  | Inr vx \<Rightarrow> (case py_float env vx of
                      Inl e \<Rightarrow> Inl e
                    | Inr fx \<Rightarrow> (case py_getitem point_data ''y'' of
                        Inl e \<Rightarrow> Inl e
                      | Inr vy \<Rightarrow> (case py_float env vy of
                          Inl e \<Rightarrow> Inl e
                        | Inr fy \<Rightarrow>
                            point_loop env rest (coordinates @ [(clamp01 fx, clamp01 fy)])))))))"

text \<open>Lines 245 to 250: a list or tuple of length 2.\<close>

definition point_pair :: "env \<Rightarrow> pyval list \<Rightarrow> pyerror + (pyfloat \<times> pyfloat) list option" where
  "point_pair env xs =
     (case xs of
        [x, y] \<Rightarrow> (case py_float env x of
            Inl e \<Rightarrow> Inl e
          | Inr fx \<Rightarrow> (case py_float env y of
              Inl e \<Rightarrow> Inl e
            | Inr fy \<Rightarrow> Inr (Some [(clamp01 fx, clamp01 fy)])))
      | _ \<Rightarrow> Inr None)"

text \<open>Lines 232 to 253: the normalisation of the raw result.\<close>

definition point_parse :: "env \<Rightarrow> pyval \<Rightarrow> pyerror + (pyfloat \<times> pyfloat) list option" where
  "point_parse env result =
     (case result of
        PDict kvs \<Rightarrow>
          (case map_of kvs ''points'' of
             None \<Rightarrow> Inr None
           | Some points_list \<Rightarrow>
               if \<not> py_truthy points_list then Inr None
               else (case py_len points_list of
                   Inl e \<Rightarrow> Inl e
                 | Inr n \<Rightarrow>
                     if \<not> n > 0 then Inr None
                     else (case py_iter points_list of
                         Inl e \<Rightarrow> Inl e
                       | Inr entries \<Rightarrow> (case point_loop env entries [] of
                           Inl e \<Rightarrow> Inl e
                         | Inr coordinates \<Rightarrow>
                             if coordinates \<noteq> [] then Inr (Some coordinates) else Inr None))))
      | PList xs \<Rightarrow> point_pair env xs
      | PTuple xs \<Rightarrow> point_pair env xs
      | _ \<Rightarrow> Inr None)"

definition point :: "env \<Rightarrow> nat \<Rightarrow> string \<Rightarrow> string \<Rightarrow> state \<Rightarrow> (pyerror + (pyfloat \<times> pyfloat) list option) \<times> state" where
  "point env img object_name repo st =
     (case load_model env (Some repo) st of
        (Inl e, st0) \<Rightarrow> (Inl e, st0)
      | (Inr _, st0) \<Rightarrow>
          (case invoke env (Point img object_name) st0 of
             (Inl e, st') \<Rightarrow> (Inl e, st')
           | (Inr result, st') \<Rightarrow> (point_parse env result, st')))"

section \<open>detect (lines 256 to 320)\<close>

record detection =
  label :: string
  bbox :: "pyfloat list"
  confidence :: pyfloat

text \<open>
  The body of the \<^verbatim>\<open>try\<close> of lines 300 to 313 for one entry: \<open>Inl e\<close> is the exception
  the \<^verbatim>\<open>except\<close> clause receives, \<open>Inr None\<close> an entry the \<^verbatim>\<open>if\<close> passes over.
\<close>

definition detect_entry :: "env \<Rightarrow> string \<Rightarrow> pyval \<Rightarrow> pyerror + detection option" where
  "detect_entry env object_name obj =
     (case py_contains ''x_min'' obj of Inl e \<Rightarrow> Inl e | Inr c1 \<Rightarrow>
      if \<not> c1 then Inr None else
     (case py_contains ''y_min'' obj of Inl e \<Rightarrow> Inl e | Inr c2 \<Rightarrow>
      if \<not> c2 then Inr None else
     (case py_contains ''x_max'' obj of Inl e \<Rightarrow> Inl e | Inr c3 \<Rightarrow>
      if \<not> c3 then Inr None else
     (case py_contains ''y_max'' obj of Inl e \<Rightarrow> Inl e | Inr c4 \<Rightarrow>
      if \<not> c4 then Inr None else
     (case py_getitem obj ''x_min'' of Inl e \<Rightarrow> Inl e | Inr v1 \<Rightarrow>
     (case py_float env v1 of Inl e \<Rightarrow> Inl e | Inr x1 \<Rightarrow>
     (case py_getitem obj ''y_min'' of Inl e \<Rightarrow> Inl e | Inr v2 \<Rightarrow>
     (case py_float env v2 of Inl e \<Rightarrow> Inl e | Inr y1 \<Rightarrow>
     (case py_getitem obj ''x_max'' of Inl e \<Rightarrow> Inl e | Inr v3 \<Rightarrow>
     (case py_float env v3 of Inl e \<Rightarrow> Inl e | Inr x2 \<Rightarrow>
     (case py_getitem obj ''y_max'' of Inl e \<Rightarrow> Inl e | Inr v4 \<Rightarrow>
     (case py_float env v4 of Inl e \<Rightarrow> Inl e | Inr y2 \<Rightarrow>
        Inr (Some \<lparr>label = object_name,
                   bbox = [clamp01 x1, clamp01 y1, clamp01 x2, clamp01 y2],
                   confidence = Finite 1\<rparr>)))))))))))))"

text \<open>The loop of lines 299 to 317: an exception is displayed and the loop goes on.\<close>

fun detect_loop :: "env \<Rightarrow> string \<Rightarrow> pyval list \<Rightarrow> detection list \<Rightarrow> state \<Rightarrow> detection list \<times> state" where
  "detect_loop env object_name [] detections st = (detections, st)"
| "detect_loop env object_name (obj # rest) detections st =
     (case detect_entry env object_name obj of
        Inl e \<Rightarrow> detect_loop env object_name rest detections
                   (errors_display e ''Moondream3 detect parsing'' st)
      | Inr None \<Rightarrow> detect_loop env object_name rest detections st
      | Inr (Some d) \<Rightarrow> detect_loop env object_name rest (detections @ [d]) st)"

definition detect_parse :: "env \<Rightarrow> string \<Rightarrow> pyval \<Rightarrow> state \<Rightarrow> (pyerror + detection list) \<times> state" where
  "detect_parse env object_name result st =
     (case result of
        PDict kvs \<Rightarrow>
          (case map_of kvs ''objects'' of
             None \<Rightarrow> (Inr [], st)
           | Some objects_list \<Rightarrow>
               (case py_iter objects_list of
                  Inl e \<Rightarrow> (Inl e, st)
                | Inr objs \<Rightarrow>
                    (case detect_loop env object_name objs [] st of
                       (detections, st') \<Rightarrow> (Inr detections, st'))))
      | _ \<Rightarrow> (Inr [], st))"

definition detect :: "env \<Rightarrow> nat \<Rightarrow> string \<Rightarrow> string \<Rightarrow> int \<Rightarrow> state \<Rightarrow> (pyerror + detection list) \<times> state" where
  "detect env img object_name repo max_objects st =
     (case load_model env (Some repo) st of
        (Inl e, st0) \<Rightarrow> (Inl e, st0)
      | (Inr _, st0) \<Rightarrow>
          (let settings = (if max_objects \<noteq> 0 then [(''max_objects'', of_int max_objects)] else [])
           in case invoke env (Detect img object_name (if settings \<noteq> [] then Some settings else None)) st0 of
                (Inl e, st') \<Rightarrow> (Inl e, st')
              | (Inr result, st') \<Rightarrow> detect_parse env object_name result st'))"

section \<open>Settings (lines 33 to 45, 121 to 128, 179 to 186)\<close>

text \<open>
  A settings dict keeps insertion order: assigning to a key that is present replaces
  its value in place, a new key goes to the end. \<open>AList.update\<close> does the same.
\<close>

definition get_settings :: "env \<Rightarrow> (string \<times> real) list option" where
  "get_settings env =
     (let settings = [];
          settings = (if interrogate_vlm_max_length env > 0
                      then AList.update ''max_tokens'' (interrogate_vlm_max_length env) settings
                      else settings);
          settings = (if interrogate_vlm_temperature env > 0
                      then AList.update ''temperature'' (interrogate_vlm_temperature env) settings
                      else settings);
          settings = (if interrogate_vlm_top_p env > 0
                      then AList.update ''top_p'' (interrogate_vlm_top_p env) settings
                      else settings)
      in if settings \<noteq> [] then Some settings else None)"

text \<open>The merge that query and caption both make: per-call values over the globals.\<close>

definition build_settings :: "env \<Rightarrow> real option \<Rightarrow> real option \<Rightarrow> real option \<Rightarrow> (string \<times> real) list" where
  "build_settings env temperature top_p max_tokens =
     (let settings = (case get_settings env of Some s \<Rightarrow> s | None \<Rightarrow> []);
          settings = (case temperature of Some t \<Rightarrow> AList.update ''temperature'' t settings
                      | None \<Rightarrow> settings);
          settings = (case top_p of Some p \<Rightarrow> AList.update ''top_p'' p settings
                      | None \<Rightarrow> settings);
          settings = (case max_tokens of Some m \<Rightarrow> AList.update ''max_tokens'' m settings
                      | None \<Rightarrow> settings)
      in settings)"

section \<open>Image encoding cache (lines 73 to 97, 454 to 460)\<close>

text \<open>
  \<^verbatim>\<open>if cache_key and cache_key in image_cache\<close> and \<^verbatim>\<open>if cache_key\<close>: the key takes part
  when it is neither \<^verbatim>\<open>None\<close> nor the empty string.
\<close>

definition cache_lookup :: "string option \<Rightarrow> state \<Rightarrow> pyval option" where
  "cache_lookup cache_key st =
     (case cache_key of
        None \<Rightarrow> None
      | Some k \<Rightarrow> if k \<noteq> [] then map_of (image_cache st) k else None)"

definition cache_store :: "string option \<Rightarrow> pyval \<Rightarrow> state \<Rightarrow> state" where
  "cache_store cache_key encoded st =
     (case cache_key of
        None \<Rightarrow> st
      | Some k \<Rightarrow> if k \<noteq> [] then st\<lparr>image_cache := AList.update k encoded (image_cache st)\<rparr> else st)"

definition encode_image :: "env \<Rightarrow> nat \<Rightarrow> string option \<Rightarrow> state \<Rightarrow> (pyerror + pyval) \<times> state" where
  "encode_image env img cache_key st =
     (case cache_lookup cache_key st of
        Some cached \<Rightarrow> (Inr cached, st)
      | None \<Rightarrow>
          (case load_model env (loaded st) st of
             (Inl e, st1) \<Rightarrow> (Inl e, st1)
           | (Inr _, st1) \<Rightarrow>
               (case invoke env (EncodeImage img) st1 of
                  (Inl e, st2) \<Rightarrow> (Inl e, st2)
                | (Inr encoded, st2) \<Rightarrow> (Inr encoded, cache_store cache_key encoded st2))))"

definition clear_cache :: "state \<Rightarrow> state" where
  "clear_cache st = st\<lparr>image_cache := []\<rparr>"

text \<open>The number of external encodings among the steps made so far.\<close>

definition encode_count :: "state \<Rightarrow> nat" where
  "encode_count st = length (filter (\<lambda>c. case c of EncodeImage _ \<Rightarrow> True | _ \<Rightarrow> False) (calls st))"

section \<open>query and caption (lines 100 to 202)\<close>

text \<open>\<^verbatim>\<open>str\<close> of a non-negative integer, for \<^verbatim>\<open>id(image)\<close> and the counts in messages.\<close>

function str_nat :: "nat \<Rightarrow> string" where
  "str_nat n =
     (if n < 10 then [''0123456789'' ! n]
      else str_nat (n div 10) @ [''0123456789'' ! (n mod 10)])"
  by pat_completeness auto
termination
  by (relation "measure id") auto

declare str_nat.simps [simp del]

text \<open>
  Line 152 is executed whatever the debug flag: \<^verbatim>\<open>response['reasoning'].get('text', '')\<close>
  needs a dict, \<^verbatim>\<open>len\<close> a sized value, and \<^verbatim>\<open>[:100] + '...'\<close> a string once the length
  is over 100 (a longer list or tuple raises TypeError; a longer dict raises too,
  TypeError before Python 3.12 and KeyError from then on). \<open>None\<close>: nothing raised.
\<close>

definition reasoning_check :: "pyval \<Rightarrow> pyerror option" where
  "reasoning_check response =
     (case response of
        PDict kvs \<Rightarrow>
          (case map_of kvs ''reasoning'' of
             None \<Rightarrow> None
           | Some (PDict rkvs) \<Rightarrow>
               (let text = (case map_of rkvs ''text'' of Some t \<Rightarrow> t | None \<Rightarrow> PStr [])
                in case py_len text of
                     Inl e \<Rightarrow> Some e
                   | Inr n \<Rightarrow> if n > 100 then (case text of PStr _ \<Rightarrow> None | _ \<Rightarrow> Some TypeError)
                              else None)
           | Some _ \<Rightarrow> Some AttributeError)
      | _ \<Rightarrow> None)"

definition query :: "env \<Rightarrow> nat \<Rightarrow> string \<Rightarrow> string \<Rightarrow> bool \<Rightarrow> real option \<Rightarrow> real option \<Rightarrow> real option \<Rightarrow> bool \<Rightarrow> state \<Rightarrow> (pyerror + pyval) \<times> state" where
  "query env img question repo stream temperature top_p max_tokens use_cache st =
     (case load_model env (Some repo) st of
        (Inl e, st0) \<Rightarrow> (Inl e, st0)
      | (Inr _, st0) \<Rightarrow>
          (let settings = build_settings env temperature top_p max_tokens
           in case (if use_cache
                    then (case encode_image env img (Some (str_nat img @ ''_'' @ question)) st0 of
                            (Inl e, st1) \<Rightarrow> (Inl e, st1)
                          | (Inr encoded, st1) \<Rightarrow> (Inr (Encoded encoded), st1))
                    else (Inr (RawImage img), st0)) of
                (Inl e, st1) \<Rightarrow> (Inl e, st1)
              | (Inr image_input, st1) \<Rightarrow>
                  (case invoke env (Query image_input question stream
                                      (if settings \<noteq> [] then Some settings else None)) st1 of
                     (Inl e, st2) \<Rightarrow> (Inl e, st2)
                   | (Inr response, st2) \<Rightarrow>
                       (case (if \<not> stream then reasoning_check response else None) of
                          Some e \<Rightarrow> (Inl e, st2)
                        | None \<Rightarrow> (Inr response, st2)))))"


section \<open>Text operations of the dispatcher\<close>























section \<open>predict (lines 323 to 451)\<close>











section \<open>The specification's reading of the raw results\<close>

text \<open>\<^verbatim>\<open>float(v)\<close> succeeds: \<open>v\<close> can be coerced to a number.\<close>

definition coercible :: "env \<Rightarrow> pyval \<Rightarrow> bool" where
  "coercible env v = (case py_float env v of Inl _ \<Rightarrow> False | Inr _ \<Rightarrow> True)"



text \<open>The four fields of a bounding box record.\<close>

definition box_fields :: "string list" where
  "box_fields = [''x_min'', ''y_min'', ''x_max'', ''y_max'']"

text \<open>
  The detection the specification builds from one entry: a record with all four
  fields, all numbers, gives the label asked for, the clamped box and confidence 1.0.
\<close>

definition spec_detection :: "env \<Rightarrow> string \<Rightarrow> pyval \<Rightarrow> detection option" where
  "spec_detection env object_name obj =
     (case obj of
        PDict kvs \<Rightarrow>
          (case map_of kvs ''x_min'' of None \<Rightarrow> None | Some v1 \<Rightarrow>
          (case map_of kvs ''y_min'' of None \<Rightarrow> None | Some v2 \<Rightarrow>
          (case map_of kvs ''x_max'' of None \<Rightarrow> None | Some v3 \<Rightarrow>
          (case map_of kvs ''y_max'' of None \<Rightarrow> None | Some v4 \<Rightarrow>
          (case py_float env v1 of Inl _ \<Rightarrow> None | Inr x1 \<Rightarrow>
          (case py_float env v2 of Inl _ \<Rightarrow> None | Inr y1 \<Rightarrow>
          (case py_float env v3 of Inl _ \<Rightarrow> None | Inr x2 \<Rightarrow>
          (case py_float env v4 of Inl _ \<Rightarrow> None | Inr y2 \<Rightarrow>
             Some \<lparr>label = object_name,
                   bbox = [clamp01 x1, clamp01 y1, clamp01 x2, clamp01 y2],
                   confidence = Finite 1\<rparr>))))))))
      | _ \<Rightarrow> None)"

text \<open>What the loop of detect hands to \<^verbatim>\<open>errors.display\<close> for one entry.\<close>

definition entry_report :: "env \<Rightarrow> string \<Rightarrow> pyval \<Rightarrow> (pyerror \<times> string) option" where
  "entry_report env object_name obj =
     (case detect_entry env object_name obj of
        Inl e \<Rightarrow> Some (e, ''Moondream3 detect parsing'')
      | Inr _ \<Rightarrow> None)"

text \<open>The external model loads the repository asked for.\<close>

definition model_loads :: "env \<Rightarrow> state \<Rightarrow> string option \<Rightarrow> bool" where
  "model_loads env st repo =
     (case model_call env (calls st) (LoadModel repo) of Inl _ \<Rightarrow> False | Inr _ \<Rightarrow> True)"

text \<open>
  The external model loads the repository and answers the capability step \<open>c\<close> that
  follows with \<open>result\<close>.
\<close>

definition model_answers :: "env \<Rightarrow> state \<Rightarrow> string \<Rightarrow> call \<Rightarrow> pyval \<Rightarrow> bool" where
  "model_answers env st repo c result =
     ((case model_call env (calls st) (LoadModel (Some repo)) of Inl _ \<Rightarrow> False | Inr _ \<Rightarrow> True)
      \<and> model_call env (calls st @ [LoadModel (Some repo)]) c = Inr result)"








section \<open>Example environments\<close>

text \<open>
  An external model that always loads, answers every capability with \<open>raw\<close> and hands
  out a new object for each encoding; no string is a number; \<^verbatim>\<open>max_tokens\<close> is 100 and
  the other two options are off.
\<close>

definition example_env :: "pyval \<Rightarrow> env" where
  "example_env raw =
     \<lparr>float_of_str = (\<lambda>s. None),
      str_exc = (\<lambda>e. case e of ExternalError m \<Rightarrow> m | _ \<Rightarrow> ''error''),
      format_f = (\<lambda>n f. ''0''),
      model_call = (\<lambda>h c. case c of LoadModel r \<Rightarrow> Inr PNone
                                   | EncodeImage i \<Rightarrow> Inr (PObj (length h))
                                   | _ \<Rightarrow> Inr raw),
      interrogate_vlm_max_length = 100,
      interrogate_vlm_temperature = 0,
      interrogate_vlm_top_p = 0\<rparr>"


text \<open>The module as imported: nothing loaded, nothing cached.\<close>

definition initial_state :: state where
  "initial_state = \<lparr>loaded = None, image_cache = [], calls = [], displayed = []\<rparr>"

text \<open>A state whose cache already holds an entry under the empty key.\<close>

definition cached_state :: state where
  "cached_state = \<lparr>loaded = Some ''repo'', image_cache = [('''', PObj 99), (''k1'', PObj 7)],
                    calls = [], displayed = []\<rparr>"

text \<open>An answer with values far outside the unit interval, NaN and both infinities.\<close>

definition unit_example :: pyval where
  "unit_example =
     PDict [(''points'', PList [PDict [(''x'', PFloat (Finite 37)), (''y'', PFloat NaN)]]),
            (''objects'', PList [PDict [(''x_min'', PInt (- 3)), (''y_min'', PFloat NegInf),
                                        (''x_max'', PFloat PosInf), (''y_max'', PFloat (Finite (1/4)))]])]"



definition points_null_x :: pyval where
  "points_null_x = PDict [(''points'', PList [PDict [(''x'', PNone), (''y'', PFloat (Finite (1/2)))]])]"

definition objects_example :: pyval where
  "objects_example =
     PDict [(''objects'', PList [PDict [(''x_min'', PInt 0), (''y_min'', PInt 0),
                                         (''x_max'', PFloat (Finite (5/10))), (''y_max'', PFloat (Finite (5/10)))],
                                  PDict [(''x_min'', PInt 0)]])]"

definition objects_null_x :: pyval where
  "objects_null_x =
     PDict [(''objects'', PList [PDict [(''x_min'', PNone), (''y_min'', PInt 0),
                                         (''x_max'', PInt 1), (''y_max'', PInt 1)]])]"

section \<open>Properties\<close>

subsection \<open>Clamping\<close>

lemma clamp01_in_unit: "in_unit (clamp01 v)"
  by (cases v) (simp_all add: clamp01_def py_max_def py_min_def in_unit_def)

lemma point_loop_in_unit:
  "point_loop env entries acc = Inr cs \<Longrightarrow>
   (\<forall>p \<in> set acc. in_unit (fst p) \<and> in_unit (snd p)) \<Longrightarrow>
   (\<forall>p \<in> set cs. in_unit (fst p) \<and> in_unit (snd p))"
proof (induction entries arbitrary: acc)
  case Nil
  then show ?case by simp
next
  case (Cons e es)
  from Cons.prems show ?case
    by (auto split: sum.splits if_splits dest!: Cons.IH simp: clamp01_in_unit)
qed

lemma point_pair_in_unit:
  "point_pair env xs = Inr (Some cs) \<Longrightarrow> (\<forall>p \<in> set cs. in_unit (fst p) \<and> in_unit (snd p))"
  by (auto simp: point_pair_def clamp01_in_unit split: list.splits sum.splits)

lemma point_parse_in_unit:
  "point_parse env result = Inr (Some cs) \<Longrightarrow> (\<forall>p \<in> set cs. in_unit (fst p) \<and> in_unit (snd p))"
  unfolding point_parse_def
  by (auto split: pyval.splits option.splits sum.splits if_splits
      dest: point_pair_in_unit point_loop_in_unit)

lemma point_fst_cases:
  "fst (point env img object_name repo st) = Inr r \<Longrightarrow> \<exists>result. point_parse env result = Inr r"
  by (auto simp: point_def load_model_def invoke_def split: sum.splits prod.splits)

subsection \<open>The loop of detect against the specification's reading\<close>

lemma detect_entry_dict:
  "detect_entry env n (PDict kvs) =
     (case map_of kvs ''x_min'' of None \<Rightarrow> Inr None | Some v1 \<Rightarrow>
     (case map_of kvs ''y_min'' of None \<Rightarrow> Inr None | Some v2 \<Rightarrow>
     (case map_of kvs ''x_max'' of None \<Rightarrow> Inr None | Some v3 \<Rightarrow>
     (case map_of kvs ''y_max'' of None \<Rightarrow> Inr None | Some v4 \<Rightarrow>
     (case py_float env v1 of Inl e \<Rightarrow> Inl e | Inr x1 \<Rightarrow>
     (case py_float env v2 of Inl e \<Rightarrow> Inl e | Inr y1 \<Rightarrow>
     (case py_float env v3 of Inl e \<Rightarrow> Inl e | Inr x2 \<Rightarrow>
     (case py_float env v4 of Inl e \<Rightarrow> Inl e | Inr y2 \<Rightarrow>
        Inr (Some \<lparr>label = n,
                   bbox = [clamp01 x1, clamp01 y1, clamp01 x2, clamp01 y2],
                   confidence = Finite 1\<rparr>)))))))))"
  by (simp add: detect_entry_def split: option.splits sum.splits)

lemma detect_entry_other:
  "\<forall>kvs. obj \<noteq> PDict kvs \<Longrightarrow> detect_entry env n obj \<noteq> Inr (Some d)"
  by (cases obj) (simp_all add: detect_entry_def)

lemma detect_entry_spec:
  "(case detect_entry env n obj of Inr (Some d) \<Rightarrow> Some d | _ \<Rightarrow> None) = spec_detection env n obj"
proof (cases "\<exists>kvs. obj = PDict kvs")
  case True
  then obtain kvs where "obj = PDict kvs" by blast
  then show ?thesis
    by (simp add: detect_entry_dict spec_detection_def split: option.splits sum.splits)
next
  case False
  then have "\<forall>d. detect_entry env n obj \<noteq> Inr (Some d)"
    using detect_entry_other by blast
  moreover from False have "spec_detection env n obj = None"
    by (cases obj) (simp_all add: spec_detection_def)
  ultimately show ?thesis
    by (auto split: sum.splits option.splits)
qed

lemma detect_loop_spec:
  "detect_loop env n objs acc st =
     (acc @ List.map_filter (spec_detection env n) objs,
      st\<lparr>displayed := displayed st @ List.map_filter (entry_report env n) objs\<rparr>)"
proof (induction objs arbitrary: acc st)
  case Nil
  then show ?case by (simp add: List.map_filter_simps)
next
  case (Cons obj objs)
  show ?case
  proof (cases "detect_entry env n obj")
    case (Inl e)
    with detect_entry_spec [of env n obj] have "spec_detection env n obj = None" by simp
    with Inl show ?thesis
      by (simp add: Cons.IH List.map_filter_simps entry_report_def errors_display_def)
  next
    case (Inr r)
    show ?thesis
    proof (cases r)
      case None
      with Inr detect_entry_spec [of env n obj] have "spec_detection env n obj = None" by simp
      with Inr None show ?thesis
        by (simp add: Cons.IH List.map_filter_simps entry_report_def)
    next
      case (Some d)
      with Inr detect_entry_spec [of env n obj] have "spec_detection env n obj = Some d" by simp
      with Inr Some show ?thesis
        by (simp add: Cons.IH List.map_filter_simps entry_report_def)
    qed
  qed
qed

lemma spec_detection_shape:
  "spec_detection env n obj = Some d \<Longrightarrow>
   label d = n \<and> confidence d = Finite 1 \<and> length (bbox d) = 4 \<and> (\<forall>c \<in> set (bbox d). in_unit c)"
  by (auto simp: spec_detection_def clamp01_in_unit split: pyval.splits option.splits sum.splits)

lemma set_map_filter: "set (List.map_filter f xs) = {y. \<exists>x \<in> set xs. f x = Some y}"
  by (induction xs) (auto simp: List.map_filter_simps split: option.splits)

lemma detect_parse_shape:
  "fst (detect_parse env n result st) = Inr ds \<Longrightarrow> d \<in> set ds \<Longrightarrow>
   label d = n \<and> confidence d = Finite 1 \<and> length (bbox d) = 4 \<and> (\<forall>c \<in> set (bbox d). in_unit c)"
proof -
  assume r: "fst (detect_parse env n result st) = Inr ds" and d: "d \<in> set ds"
  from r have "set ds \<subseteq> {y. \<exists>x. spec_detection env n x = Some y}"
    unfolding detect_parse_def
    by (auto simp: detect_loop_spec set_map_filter split: pyval.splits option.splits sum.splits)
  with d obtain x where "spec_detection env n x = Some d" by blast
  then show ?thesis by (rule spec_detection_shape)
qed

lemma detect_fst_cases:
  "fst (detect env img n repo mo st) = Inr ds \<Longrightarrow> \<exists>result st'. fst (detect_parse env n result st') = Inr ds"
  by (auto simp: detect_def load_model_def invoke_def Let_def split: sum.splits prod.splits)

text \<open>
  C1. Whatever the external model answers, every coordinate that point returns (both
  axes of every point) and every coordinate that detect returns (the four entries of
  every bbox) is a finite number between 0.0 and 1.0.
\<close>

theorem coordinates_in_unit:
  "(\<forall>pts. fst (point env img object_name repo st) = Inr (Some pts) \<longrightarrow>
      (\<forall>p \<in> set pts. in_unit (fst p) \<and> in_unit (snd p)))
   \<and> (\<forall>ds. fst (detect env img object_name repo max_objects st) = Inr ds \<longrightarrow>
      (\<forall>d \<in> set ds. length (bbox d) = 4 \<and> (\<forall>c \<in> set (bbox d). in_unit c)))"
proof (intro conjI allI impI)
  fix pts
  assume "fst (point env img object_name repo st) = Inr (Some pts)"
  then obtain result where "point_parse env result = Inr (Some pts)"
    using point_fst_cases by blast
  then show "\<forall>p \<in> set pts. in_unit (fst p) \<and> in_unit (snd p)"
    by (rule point_parse_in_unit)
next
  fix ds
  assume "fst (detect env img object_name repo max_objects st) = Inr ds"
  then obtain result st' where "fst (detect_parse env object_name result st') = Inr ds"
    using detect_fst_cases by blast
  then show "\<forall>d \<in> set ds. length (bbox d) = 4 \<and> (\<forall>c \<in> set (bbox d). in_unit c)"
    using detect_parse_shape by blast
qed

text \<open>
  An answer with 37, NaN, -3 and both infinities: point returns (1.0, 1.0) and detect
  the box [0.0, 0.0, 1.0, 0.25].
\<close>

theorem coordinates_in_unit_witness:
  "fst (point (example_env unit_example) 0 ''dog'' ''repo'' initial_state)
     = Inr (Some [(Finite 1, Finite 1)])
   \<and> in_unit (Finite 1)
   \<and> fst (detect (example_env unit_example) 0 ''dog'' ''repo'' 10 initial_state)
     = Inr [\<lparr>label = ''dog'', bbox = [Finite 0, Finite 0, Finite 1, Finite (1/4)],
              confidence = Finite 1\<rparr>]
   \<and> in_unit (Finite 0) \<and> in_unit (Finite (1/4))"
proof -
  have p: "fst (point (example_env unit_example) 0 ''dog'' ''repo'' initial_state)
             = Inr (Some [(Finite 1, Finite 1)])"
    by (simp add: point_def load_model_def invoke_def example_env_def initial_state_def
        unit_example_def point_parse_def py_float_def clamp01_def py_min_def py_max_def)
  have d: "fst (detect (example_env unit_example) 0 ''dog'' ''repo'' 10 initial_state)
             = Inr [\<lparr>label = ''dog'', bbox = [Finite 0, Finite 0, Finite 1, Finite (1/4)],
                      confidence = Finite 1\<rparr>]"
    by (simp add: detect_def load_model_def invoke_def example_env_def initial_state_def
        unit_example_def detect_parse_def detect_entry_dict py_float_def clamp01_def
        py_min_def py_max_def)
  from coordinates_in_unit [of "example_env unit_example" 0 "''dog''" "''repo''" initial_state 10] p d
  show ?thesis by simp
qed

subsection \<open>point against the specification's reading\<close>


lemma detect_answered:
  "model_answers env st repo
     (Detect img object_name (if max_objects \<noteq> 0 then Some [(''max_objects'', of_int max_objects)] else None))
     result \<Longrightarrow>
   detect env img object_name repo max_objects st =
     detect_parse env object_name result
       (st\<lparr>loaded := Some repo,
           calls := calls st @ [LoadModel (Some repo),
             Detect img object_name
               (if max_objects \<noteq> 0 then Some [(''max_objects'', of_int max_objects)] else None)]\<rparr>)"
  by (auto simp: model_answers_def detect_def load_model_def invoke_def Let_def split: sum.splits)

lemma example_answers:
  "(\<forall>r. c \<noteq> LoadModel r) \<Longrightarrow> (\<forall>i. c \<noteq> EncodeImage i) \<Longrightarrow>
   model_answers (example_env raw) initial_state repo c raw"
  by (cases c) (simp_all add: model_answers_def example_env_def initial_state_def)










text \<open>
  C8. An entry with both fields and a null \<open>x\<close> makes point raise TypeError, where
  detect, given the like entry, displays the error and goes on.
\<close>

theorem point_raises_on_malformed_entry:
  "fst (point (example_env points_null_x) 0 ''dog'' ''repo'' initial_state) = Inl TypeError
   \<and> detect (example_env objects_null_x) 0 ''dog'' ''repo'' 10 initial_state =
       (Inr [], \<lparr>loaded = Some ''repo'', image_cache = [],
                 calls = [LoadModel (Some ''repo''), Detect 0 ''dog'' (Some [(''max_objects'', 10)])],
                 displayed = [(TypeError, ''Moondream3 detect parsing'')]\<rparr>)"
  by (simp add: point_def detect_def load_model_def invoke_def example_env_def initial_state_def
      points_null_x_def objects_null_x_def point_parse_def detect_parse_def detect_entry_dict
      py_float_def errors_display_def)


subsection \<open>detect: what is built, what is displayed\<close>

lemma detect_parse_sequence:
  assumes "map_of kvs ''objects'' = Some (PList objs) \<or> map_of kvs ''objects'' = Some (PTuple objs)"
  shows "detect_parse env n (PDict kvs) st =
           (Inr (List.map_filter (spec_detection env n) objs),
            st\<lparr>displayed := displayed st @ List.map_filter (entry_report env n) objs\<rparr>)"
  using assms by (auto simp: detect_parse_def detect_loop_spec)

lemma missing_field_silent:
  assumes "k \<in> set box_fields" and "map_of kvs k = None"
  shows "spec_detection env n (PDict kvs) = None \<and> entry_report env n (PDict kvs) = None"
  using assms
  by (auto simp: box_fields_def spec_detection_def entry_report_def detect_entry_dict
      split: option.splits sum.splits)

lemma not_coercible_reported:
  assumes "\<forall>k \<in> set box_fields. map_of kvs k \<noteq> None"
      and "k \<in> set box_fields" and "map_of kvs k = Some v" and "\<not> coercible env v"
  shows "spec_detection env n (PDict kvs) = None
         \<and> (\<exists>e. entry_report env n (PDict kvs) = Some (e, ''Moondream3 detect parsing''))"
  using assms
  by (auto simp: box_fields_def spec_detection_def entry_report_def detect_entry_dict coercible_def
      split: option.splits sum.splits)

lemma objects_example_parse:
  "List.map_filter (spec_detection env ''cat'')
     [PDict [(''x_min'', PInt 0), (''y_min'', PInt 0),
             (''x_max'', PFloat (Finite (5/10))), (''y_max'', PFloat (Finite (5/10)))],
      PDict [(''x_min'', PInt 0)]]
   = [\<lparr>label = ''cat'', bbox = [Finite 0, Finite 0, Finite (5/10), Finite (5/10)],
        confidence = Finite 1\<rparr>]"
  by (simp add: spec_detection_def py_float_def clamp01_def py_min_def py_max_def)

text \<open>
  C4, as stated, fails on the specification's own example: the second entry lacks three
  fields and is skipped, but nothing is handed to \<^verbatim>\<open>errors.display\<close> for it.
\<close>

theorem detect_missing_field_not_reported:
  "fst (detect (example_env objects_example) 0 ''cat'' ''repo'' 10 initial_state)
     = Inr [\<lparr>label = ''cat'', bbox = [Finite 0, Finite 0, Finite (5/10), Finite (5/10)],
              confidence = Finite 1\<rparr>]
   \<and> displayed (snd (detect (example_env objects_example) 0 ''cat'' ''repo'' 10 initial_state)) = []
   \<and> entry_report (example_env objects_example) ''cat'' (PDict [(''x_min'', PInt 0)]) = None"
  by (simp add: detect_def load_model_def invoke_def example_env_def initial_state_def
      objects_example_def detect_parse_def detect_entry_dict entry_report_def
      py_float_def clamp01_def py_min_def py_max_def)

text \<open>
  C4, amended. When the model answers detect's request with a record whose \<open>objects\<close>
  field is a sequence: detect returns, in order, one detection for each entry that is a
  record with all four fields, all numbers, labelled with the object name asked for,
  with the four clamped coordinates and confidence 1.0; it displays one error for each
  entry that raises and nothing else. A record missing one of the four fields is passed
  over without a report; a record with all four fields, one of them not a number, is
  reported and gives no detection. No entry stops the loop. The specification's example
  gives the one detection of \<open>cat\<close>.
\<close>

theorem detect_builds_detections:
  assumes "model_answers env st repo
             (Detect img object_name
                (if max_objects \<noteq> 0 then Some [(''max_objects'', of_int max_objects)] else None))
             (PDict kvs)"
      and "map_of kvs ''objects'' = Some (PList objs) \<or> map_of kvs ''objects'' = Some (PTuple objs)"
  shows
    "fst (detect env img object_name repo max_objects st)
       = Inr (List.map_filter (spec_detection env object_name) objs)
     \<and> displayed (snd (detect env img object_name repo max_objects st))
       = displayed st @ List.map_filter (entry_report env object_name) objs
     \<and> (\<forall>d \<in> set (List.map_filter (spec_detection env object_name) objs).
          label d = object_name \<and> confidence d = Finite 1)
     \<and> (\<forall>kvs' k. k \<in> set box_fields \<and> map_of kvs' k = None \<longrightarrow>
          spec_detection env object_name (PDict kvs') = None
          \<and> entry_report env object_name (PDict kvs') = None)
     \<and> (\<forall>kvs' k v. (\<forall>k' \<in> set box_fields. map_of kvs' k' \<noteq> None)
          \<and> k \<in> set box_fields \<and> map_of kvs' k = Some v \<and> \<not> coercible env v \<longrightarrow>
          spec_detection env object_name (PDict kvs') = None
          \<and> (\<exists>e. entry_report env object_name (PDict kvs') = Some (e, ''Moondream3 detect parsing'')))
     \<and> (PDict kvs = objects_example \<and> object_name = ''cat'' \<longrightarrow>
          fst (detect env img object_name repo max_objects st)
            = Inr [\<lparr>label = ''cat'', bbox = [Finite 0, Finite 0, Finite (5/10), Finite (5/10)],
                     confidence = Finite 1\<rparr>])"
proof -
  have run: "detect env img object_name repo max_objects st =
      (Inr (List.map_filter (spec_detection env object_name) objs),
       (st\<lparr>loaded := Some repo,
           calls := calls st @ [LoadModel (Some repo),
             Detect img object_name
               (if max_objects \<noteq> 0 then Some [(''max_objects'', of_int max_objects)] else None)]\<rparr>)
         \<lparr>displayed := displayed st @ List.map_filter (entry_report env object_name) objs\<rparr>)"
    using detect_answered [OF assms(1)] detect_parse_sequence [OF assms(2)] by simp
  have labels: "\<forall>d \<in> set (List.map_filter (spec_detection env object_name) objs).
          label d = object_name \<and> confidence d = Finite 1"
    using spec_detection_shape by (auto simp: set_map_filter)
  have ex: "PDict kvs = objects_example \<and> object_name = ''cat'' \<longrightarrow>
          fst (detect env img object_name repo max_objects st)
            = Inr [\<lparr>label = ''cat'', bbox = [Finite 0, Finite 0, Finite (5/10), Finite (5/10)],
                     confidence = Finite 1\<rparr>]"
  proof
    assume h: "PDict kvs = objects_example \<and> object_name = ''cat''"
    with assms(2) have "objs = [PDict [(''x_min'', PInt 0), (''y_min'', PInt 0),
             (''x_max'', PFloat (Finite (5/10))), (''y_max'', PFloat (Finite (5/10)))],
      PDict [(''x_min'', PInt 0)]]"
      by (auto simp: objects_example_def)
    with h run objects_example_parse [of env] show "fst (detect env img object_name repo max_objects st)
            = Inr [\<lparr>label = ''cat'', bbox = [Finite 0, Finite 0, Finite (5/10), Finite (5/10)],
                     confidence = Finite 1\<rparr>]"
      by simp
  qed
  from run labels ex missing_field_silent [of _ _ env object_name]
    not_coercible_reported [of _ _ _ env object_name]
  show ?thesis
    by (intro conjI allI impI; (simp; fail | blast))
qed

text \<open>The example of the specification, and an entry that is reported.\<close>

theorem detect_builds_detections_witness:
  "fst (detect (example_env objects_example) 0 ''cat'' ''repo'' 10 initial_state)
     = Inr [\<lparr>label = ''cat'', bbox = [Finite 0, Finite 0, Finite (5/10), Finite (5/10)],
              confidence = Finite 1\<rparr>]
   \<and> displayed (snd (detect (example_env objects_null_x) 0 ''cat'' ''repo'' 10 initial_state))
     = [(TypeError, ''Moondream3 detect parsing'')]
   \<and> fst (detect (example_env objects_null_x) 0 ''cat'' ''repo'' 10 initial_state) = Inr []"
proof -
  have a: "\<And>raw. model_answers (example_env raw) initial_state ''repo''
             (Detect 0 ''cat'' (if (10::int) \<noteq> 0 then Some [(''max_objects'', of_int 10)] else None)) raw"
    by (rule example_answers) simp_all
  have o1: "map_of [(''objects'', PList [PDict [(''x_min'', PInt 0), (''y_min'', PInt 0),
                (''x_max'', PFloat (Finite (5/10))), (''y_max'', PFloat (Finite (5/10)))],
              PDict [(''x_min'', PInt 0)]])] ''objects''
            = Some (PList [PDict [(''x_min'', PInt 0), (''y_min'', PInt 0),
                (''x_max'', PFloat (Finite (5/10))), (''y_max'', PFloat (Finite (5/10)))],
              PDict [(''x_min'', PInt 0)]])
          \<or> map_of [(''objects'', PList [PDict [(''x_min'', PInt 0), (''y_min'', PInt 0),
                (''x_max'', PFloat (Finite (5/10))), (''y_max'', PFloat (Finite (5/10)))],
              PDict [(''x_min'', PInt 0)]])] ''objects''
            = Some (PTuple [PDict [(''x_min'', PInt 0), (''y_min'', PInt 0),
                (''x_max'', PFloat (Finite (5/10))), (''y_max'', PFloat (Finite (5/10)))],
              PDict [(''x_min'', PInt 0)]])"
    by simp
  have o2: "map_of [(''objects'', PList [PDict [(''x_min'', PNone), (''y_min'', PInt 0),
                (''x_max'', PInt 1), (''y_max'', PInt 1)]])] ''objects''
            = Some (PList [PDict [(''x_min'', PNone), (''y_min'', PInt 0),
                (''x_max'', PInt 1), (''y_max'', PInt 1)]])
          \<or> map_of [(''objects'', PList [PDict [(''x_min'', PNone), (''y_min'', PInt 0),
                (''x_max'', PInt 1), (''y_max'', PInt 1)]])] ''objects''
            = Some (PTuple [PDict [(''x_min'', PNone), (''y_min'', PInt 0),
                (''x_max'', PInt 1), (''y_max'', PInt 1)]])"
    by simp
  from detect_builds_detections [OF a [of objects_example, unfolded objects_example_def] o1]
  have 1: "fst (detect (example_env objects_example) 0 ''cat'' ''repo'' 10 initial_state)
     = Inr [\<lparr>label = ''cat'', bbox = [Finite 0, Finite 0, Finite (5/10), Finite (5/10)],
              confidence = Finite 1\<rparr>]"
    by (simp add: objects_example_def spec_detection_def py_float_def clamp01_def
        py_min_def py_max_def)
  from detect_builds_detections [OF a [of objects_null_x, unfolded objects_null_x_def] o2]
  have 2: "displayed (snd (detect (example_env objects_null_x) 0 ''cat'' ''repo'' 10 initial_state))
     = [(TypeError, ''Moondream3 detect parsing'')]
     \<and> fst (detect (example_env objects_null_x) 0 ''cat'' ''repo'' 10 initial_state) = Inr []"
    by (simp add: objects_null_x_def initial_state_def entry_report_def detect_entry_dict
        spec_detection_def py_float_def)
  from 1 2 show ?thesis by simp
qed

subsection \<open>Settings\<close>

lemma get_settings_map:
  "map_of (case get_settings env of Some s \<Rightarrow> s | None \<Rightarrow> []) k =
     (if k = ''max_tokens'' \<and> interrogate_vlm_max_length env > 0 then Some (interrogate_vlm_max_length env)
      else if k = ''temperature'' \<and> interrogate_vlm_temperature env > 0 then Some (interrogate_vlm_temperature env)
      else if k = ''top_p'' \<and> interrogate_vlm_top_p env > 0 then Some (interrogate_vlm_top_p env)
      else None)"
  by (simp add: get_settings_def Let_def)

lemma get_settings_keys:
  "set (map fst (case get_settings env of Some s \<Rightarrow> s | None \<Rightarrow> [])) \<subseteq> {''max_tokens'', ''temperature'', ''top_p''}
   \<and> distinct (map fst (case get_settings env of Some s \<Rightarrow> s | None \<Rightarrow> []))"
  by (simp add: get_settings_def Let_def)

lemma build_settings_map:
  "map_of (build_settings env temperature top_p max_tokens) k =
     (if k = ''max_tokens'' then
        (case max_tokens of Some m \<Rightarrow> Some m
         | None \<Rightarrow> if interrogate_vlm_max_length env > 0 then Some (interrogate_vlm_max_length env) else None)
      else if k = ''temperature'' then
        (case temperature of Some t \<Rightarrow> Some t
         | None \<Rightarrow> if interrogate_vlm_temperature env > 0 then Some (interrogate_vlm_temperature env) else None)
      else if k = ''top_p'' then
        (case top_p of Some p \<Rightarrow> Some p
         | None \<Rightarrow> if interrogate_vlm_top_p env > 0 then Some (interrogate_vlm_top_p env) else None)
      else None)"
  unfolding build_settings_def Let_def
  by (simp add: AList.update_conv' get_settings_map split: option.splits)

lemma update_keys_within:
  fixes al :: "(string \<times> real) list"
  assumes "set (map fst al) \<subseteq> K \<and> distinct (map fst al)" and "k \<in> K"
  shows "set (map fst (AList.update k v al)) \<subseteq> K \<and> distinct (map fst (AList.update k v al))"
proof -
  have "fst ` set (AList.update k v al) = {k} \<union> fst ` set al"
    by (rule AList.dom_update)
  with assms show ?thesis
    by (simp add: AList.distinct_update)
qed

lemma build_settings_keys:
  "set (map fst (build_settings env temperature top_p max_tokens)) \<subseteq> {''max_tokens'', ''temperature'', ''top_p''}
   \<and> distinct (map fst (build_settings env temperature top_p max_tokens))"
proof -
  let ?K = "{''max_tokens'', ''temperature'', ''top_p''}"
  let ?ok = "\<lambda>al :: (string \<times> real) list. set (map fst al) \<subseteq> ?K \<and> distinct (map fst al)"
  let ?s0 = "case get_settings env of Some s \<Rightarrow> s | None \<Rightarrow> []"
  let ?s1 = "case temperature of Some t \<Rightarrow> AList.update ''temperature'' t ?s0 | None \<Rightarrow> ?s0"
  let ?s2 = "case top_p of Some p \<Rightarrow> AList.update ''top_p'' p ?s1 | None \<Rightarrow> ?s1"
  let ?s3 = "case max_tokens of Some m \<Rightarrow> AList.update ''max_tokens'' m ?s2 | None \<Rightarrow> ?s2"
  have 0: "?ok ?s0" by (rule get_settings_keys)
  have 1: "?ok ?s1"
  proof (cases temperature)
    case None
    with 0 show ?thesis by simp
  next
    case (Some t)
    from update_keys_within [OF 0, of "''temperature''" t] Some show ?thesis by simp
  qed
  have 2: "?ok ?s2"
  proof (cases top_p)
    case None
    with 1 show ?thesis by simp
  next
    case (Some p)
    from update_keys_within [OF 1, of "''top_p''" p] Some show ?thesis by simp
  qed
  have 3: "?ok ?s3"
  proof (cases max_tokens)
    case None
    with 2 show ?thesis by simp
  next
    case (Some m)
    from update_keys_within [OF 2, of "''max_tokens''" m] Some show ?thesis by simp
  qed
  have "build_settings env temperature top_p max_tokens = ?s3"
    by (simp add: build_settings_def Let_def)
  with 3 show ?thesis by simp
qed

lemma query_calls:
  assumes "model_loads env st (Some repo)"
  shows "calls (snd (query env img question repo stream temperature top_p max_tokens False st)) =
           calls st @ [LoadModel (Some repo),
             Query (RawImage img) question stream
               (if build_settings env temperature top_p max_tokens \<noteq> []
                then Some (build_settings env temperature top_p max_tokens) else None)]"
  using assms
  by (auto simp: model_loads_def query_def load_model_def invoke_def Let_def
      split: sum.splits option.splits)

text \<open>
  C6. The settings built for a call hold a field exactly when its per-call value is
  given or its global option is above 0, under no other name than the three; a per-call
  value stands in place of the global one. build_settings is a function of the options
  and the three per-call values alone: it reads and changes no state and has no error
  result. With temperature off globally and 0.7 given, temperature is 0.7; with
  max_tokens 100 globally and none given, max_tokens is 100. query hands exactly these
  settings to the model.
\<close>

theorem settings_merge:
  "map_of (build_settings env temperature top_p max_tokens) ''temperature'' =
     (case temperature of Some t \<Rightarrow> Some t
      | None \<Rightarrow> if interrogate_vlm_temperature env > 0
                then Some (interrogate_vlm_temperature env) else None)
   \<and> map_of (build_settings env temperature top_p max_tokens) ''top_p'' =
     (case top_p of Some p \<Rightarrow> Some p
      | None \<Rightarrow> if interrogate_vlm_top_p env > 0 then Some (interrogate_vlm_top_p env) else None)
   \<and> map_of (build_settings env temperature top_p max_tokens) ''max_tokens'' =
     (case max_tokens of Some m \<Rightarrow> Some m
      | None \<Rightarrow> if interrogate_vlm_max_length env > 0
                then Some (interrogate_vlm_max_length env) else None)
   \<and> set (map fst (build_settings env temperature top_p max_tokens))
       \<subseteq> {''max_tokens'', ''temperature'', ''top_p''}
   \<and> distinct (map fst (build_settings env temperature top_p max_tokens))
   \<and> (interrogate_vlm_temperature env = 0 \<longrightarrow>
        map_of (build_settings env (Some (7/10)) top_p max_tokens) ''temperature'' = Some (7/10))
   \<and> (interrogate_vlm_max_length env = 100 \<longrightarrow>
        map_of (build_settings env temperature top_p None) ''max_tokens'' = Some 100)
   \<and> (model_loads env st (Some repo) \<longrightarrow>
        calls (snd (query env img question repo stream temperature top_p max_tokens False st)) =
          calls st @ [LoadModel (Some repo),
            Query (RawImage img) question stream
              (if build_settings env temperature top_p max_tokens \<noteq> []
               then Some (build_settings env temperature top_p max_tokens) else None)])"
  using build_settings_keys [of env temperature top_p max_tokens]
    query_calls [of env st repo img question stream temperature top_p max_tokens]
  by (simp add: build_settings_map)

text \<open>
  The two examples of the specification, and the query step they lead to.
\<close>

theorem settings_merge_witness:
  "map_of (build_settings (example_env PNone) (Some (7/10)) None None) ''temperature'' = Some (7/10)
   \<and> map_of (build_settings (example_env PNone) None None None) ''max_tokens'' = Some 100
   \<and> map_of (build_settings (example_env PNone) None None None) ''temperature'' = None
   \<and> calls (snd (query (example_env PNone) 0 ''what?'' ''repo'' False (Some (7/10)) None None False
                 initial_state)) =
       [LoadModel (Some ''repo''),
        Query (RawImage 0) ''what?'' False (Some [(''max_tokens'', 100), (''temperature'', 7/10)])]"
proof -
  have t: "interrogate_vlm_temperature (example_env PNone) = 0"
    and m: "interrogate_vlm_max_length (example_env PNone) = 100"
    by (simp_all add: example_env_def)
  have l: "model_loads (example_env PNone) initial_state (Some ''repo'')"
    by (simp add: model_loads_def example_env_def)
  have b: "build_settings (example_env PNone) (Some (7/10)) None None
             = [(''max_tokens'', 100), (''temperature'', 7/10)]"
    by (simp add: build_settings_def get_settings_def example_env_def)
  from settings_merge [of "example_env PNone" "Some (7/10)" None None initial_state "''repo''" 0 "''what?''" False]
    settings_merge [of "example_env PNone" None None None initial_state "''repo''" 0 "''what?''" False]
    t m l b
  show ?thesis by (simp add: initial_state_def)
qed

subsection \<open>The encoding cache\<close>

lemma encode_image_hit:
  "k \<noteq> [] \<Longrightarrow> map_of (image_cache st) k = Some h \<Longrightarrow>
   encode_image env img (Some k) st = (Inr h, st)"
  by (simp add: encode_image_def cache_lookup_def)

lemma encode_image_miss:
  assumes "cache_lookup cache_key st = None"
  shows "encode_image env img cache_key st =
     (case model_call env (calls st) (LoadModel (loaded st)) of
        Inl e \<Rightarrow> (Inl e, st\<lparr>calls := calls st @ [LoadModel (loaded st)]\<rparr>)
      | Inr m \<Rightarrow>
          (case model_call env (calls st @ [LoadModel (loaded st)]) (EncodeImage img) of
             Inl e \<Rightarrow> (Inl e, st\<lparr>calls := calls st @ [LoadModel (loaded st), EncodeImage img]\<rparr>)
           | Inr encoded \<Rightarrow>
               (Inr encoded,
                cache_store cache_key encoded
                  (st\<lparr>calls := calls st @ [LoadModel (loaded st), EncodeImage img]\<rparr>))))"
  using assms
  by (simp add: encode_image_def load_model_def invoke_def split: sum.splits)

lemma encode_count_append:
  "encode_count (st\<lparr>calls := calls st @ cs\<rparr>) =
     encode_count st + length (filter (\<lambda>c. case c of EncodeImage _ \<Rightarrow> True | _ \<Rightarrow> False) cs)"
  by (simp add: encode_count_def)

lemma encode_count_cache_store [simp]:
  "encode_count (cache_store ck v st) = encode_count st"
  by (simp add: encode_count_def cache_store_def split: option.splits)

lemma cache_store_lookup:
  "k \<noteq> [] \<Longrightarrow> map_of (image_cache (cache_store (Some k) v st)) k = Some v"
  by (simp add: cache_store_def AList.update_conv')

lemma encode_image_stores:
  assumes "k \<noteq> []" and "encode_image env img (Some k) st = (Inr h, st1)"
  shows "map_of (image_cache st1) k = Some h
         \<and> encode_count st1 = encode_count st + (if map_of (image_cache st) k = None then 1 else 0)"
proof (cases "map_of (image_cache st) k")
  case None
  with assms(1) have "cache_lookup (Some k) st = None" by (simp add: cache_lookup_def)
  from encode_image_miss [OF this, of env img] assms None show ?thesis
    by (auto simp: cache_store_lookup encode_count_append split: sum.splits)
next
  case (Some c)
  with assms encode_image_hit [of k st c env img] show ?thesis by simp
qed

text \<open>
  C7, amended to keys that are not empty. If encode_image with such a key returns a
  handle, the next encode_image with the key returns that handle and leaves the state
  as it is (no step of the external model), and the two calls together made one
  external encoding when the key was new and none when it was cached. clear_cache
  empties the cache, and after it encode_image with the key goes to the external
  encoder again.
\<close>

theorem cache_idempotent:
  assumes "k \<noteq> []" and "encode_image env img (Some k) st = (Inr h, st1)"
  shows "encode_image env img (Some k) st1 = (Inr h, st1)
         \<and> encode_count st1 = encode_count st + (if map_of (image_cache st) k = None then 1 else 0)
         \<and> image_cache (clear_cache st1) = []
         \<and> (model_loads env st1 (loaded st1) \<longrightarrow>
              calls (snd (encode_image env img (Some k) (clear_cache st1))) =
                calls st1 @ [LoadModel (loaded st1), EncodeImage img])"
proof -
  from encode_image_stores [OF assms] have s: "map_of (image_cache st1) k = Some h"
    and c: "encode_count st1 = encode_count st + (if map_of (image_cache st) k = None then 1 else 0)"
    by simp_all
  from encode_image_hit [OF assms(1) s] have again: "encode_image env img (Some k) st1 = (Inr h, st1)" .
  have cl: "cache_lookup (Some k) (clear_cache st1) = None"
    by (simp add: cache_lookup_def clear_cache_def)
  have fresh: "model_loads env st1 (loaded st1) \<longrightarrow>
              calls (snd (encode_image env img (Some k) (clear_cache st1))) =
                calls st1 @ [LoadModel (loaded st1), EncodeImage img]"
    unfolding encode_image_miss [OF cl]
    by (auto simp: model_loads_def clear_cache_def cache_store_def split: sum.splits)
  from again c fresh show ?thesis by (simp add: clear_cache_def)
qed

text \<open>
  Two calls with the key k1 from the initial state, and a third after clear_cache.
\<close>

theorem cache_idempotent_witness:
  "encode_image (example_env PNone) 5 (Some ''k1'') initial_state =
     (Inr (PObj 1), \<lparr>loaded = None, image_cache = [(''k1'', PObj 1)],
                     calls = [LoadModel None, EncodeImage 5], displayed = []\<rparr>)
   \<and> encode_image (example_env PNone) 5 (Some ''k1'')
       \<lparr>loaded = None, image_cache = [(''k1'', PObj 1)],
        calls = [LoadModel None, EncodeImage 5], displayed = []\<rparr> =
     (Inr (PObj 1), \<lparr>loaded = None, image_cache = [(''k1'', PObj 1)],
                     calls = [LoadModel None, EncodeImage 5], displayed = []\<rparr>)
   \<and> encode_count \<lparr>loaded = None, image_cache = [(''k1'', PObj 1)],
                    calls = [LoadModel None, EncodeImage 5], displayed = []\<rparr> = 1
   \<and> calls (snd (encode_image (example_env PNone) 5 (Some ''k1'')
        (clear_cache \<lparr>loaded = None, image_cache = [(''k1'', PObj 1)],
                      calls = [LoadModel None, EncodeImage 5], displayed = []\<rparr>))) =
       [LoadModel None, EncodeImage 5, LoadModel None, EncodeImage 5]"
proof -
  let ?st1 = "\<lparr>loaded = None, image_cache = [(''k1'', PObj 1)],
               calls = [LoadModel None, EncodeImage 5], displayed = []\<rparr>"
  have first: "encode_image (example_env PNone) 5 (Some ''k1'') initial_state = (Inr (PObj 1), ?st1)"
    by (simp add: encode_image_def cache_lookup_def cache_store_def load_model_def invoke_def
        example_env_def initial_state_def)
  have k: "''k1'' \<noteq> []" by simp
  have l: "model_loads (example_env PNone) ?st1 (loaded ?st1)"
    by (simp add: model_loads_def example_env_def)
  have e0: "encode_count initial_state = 0" "map_of (image_cache initial_state) ''k1'' = None"
    by (simp_all add: encode_count_def initial_state_def)
  from cache_idempotent [OF k first] l e0 first show ?thesis by simp
qed

text \<open>
  C7, as stated for every key that is not null, fails at the empty key: two calls give
  two different handles and two external encodings.
\<close>

theorem empty_key_not_memoized:
  "fst (encode_image (example_env PNone) 5 (Some '''') initial_state) = Inr (PObj 1)
   \<and> fst (encode_image (example_env PNone) 5 (Some '''')
           (snd (encode_image (example_env PNone) 5 (Some '''') initial_state))) = Inr (PObj 3)
   \<and> encode_count (snd (encode_image (example_env PNone) 5 (Some '''')
           (snd (encode_image (example_env PNone) 5 (Some '''') initial_state)))) = 2"
  by (simp add: encode_image_def cache_lookup_def cache_store_def load_model_def invoke_def
      example_env_def initial_state_def encode_count_def)

text \<open>
  C10. With the empty key encode_image does what it does with no key: the cache is
  neither read nor written, load_model is always called and the external encoder is
  asked whenever the model loads; the result is the encoder's answer.
\<close>

theorem empty_key_bypasses_cache:
  "encode_image env img (Some '''') st = encode_image env img None st
   \<and> image_cache (snd (encode_image env img (Some '''') st)) = image_cache st
   \<and> calls (snd (encode_image env img (Some '''') st)) =
       calls st @ LoadModel (loaded st)
         # (case model_call env (calls st) (LoadModel (loaded st)) of
              Inl _ \<Rightarrow> [] | Inr _ \<Rightarrow> [EncodeImage img])
   \<and> fst (encode_image env img (Some '''') st) =
       (case model_call env (calls st) (LoadModel (loaded st)) of
          Inl e \<Rightarrow> Inl e
        | Inr _ \<Rightarrow> model_call env (calls st @ [LoadModel (loaded st)]) (EncodeImage img))"
  by (simp add: encode_image_def cache_lookup_def cache_store_def load_model_def invoke_def
      split: sum.splits)

text \<open>
  Even a cache that holds an entry under the empty key is passed by.
\<close>

theorem empty_key_bypasses_cache_witness:
  "encode_image (example_env PNone) 5 (Some '''') cached_state =
     (Inr (PObj 1), cached_state\<lparr>calls := [LoadModel (Some ''repo''), EncodeImage 5]\<rparr>)
   \<and> image_cache (snd (encode_image (example_env PNone) 5 (Some '''') cached_state))
       = [('''', PObj 99), (''k1'', PObj 7)]"
proof -
  have n: "encode_image (example_env PNone) 5 None cached_state =
     (Inr (PObj 1), cached_state\<lparr>calls := [LoadModel (Some ''repo''), EncodeImage 5]\<rparr>)"
    by (simp add: encode_image_def cache_lookup_def cache_store_def load_model_def invoke_def
        example_env_def cached_state_def)
  from empty_key_bypasses_cache [of "example_env PNone" 5 cached_state] n
  show ?thesis by (simp add: cached_state_def)
qed

subsection \<open>The dispatcher and exceptions\<close>












subsection \<open>The dispatcher: what is asked of the model\<close>















subsection \<open>Name extraction\<close>

























end
